theory Spec2Isabelle
  imports Main "HOL-Library.Sublist"
begin

section \<open>Python strings and POSIX paths\<close>

text \<open>
  Python strings are modelled as \<^typ>\<open>string\<close>; the file names the program handles are
  ASCII, so \<open>str.lower\<close> is the ASCII lower-casing of each character.
\<close>

definition lower_char :: "char \<Rightarrow> char" where
  "lower_char c =
     (case map_of (zip ''ABCDEFGHIJKLMNOPQRSTUVWXYZ'' ''abcdefghijklmnopqrstuvwxyz'') c of
        Some l \<Rightarrow> l
      | None \<Rightarrow> c)"

definition lower :: "string \<Rightarrow> string" where
  "lower s = map lower_char s"

definition startswith :: "string \<Rightarrow> string \<Rightarrow> bool" where
  "startswith s p = (take (length p) s = p)"

definition endswith :: "string \<Rightarrow> string \<Rightarrow> bool" where
  "endswith s p = (length p \<le> length s \<and> drop (length s - length p) s = p)"

text \<open>\<open>s.rsplit(c, 1)\<close>: split once, at the last occurrence of \<open>c\<close>.\<close>

definition rsplit1 :: "char \<Rightarrow> string \<Rightarrow> string list" where
  "rsplit1 c s =
     (if c \<in> set s
      then [rev (tl (dropWhile (\<lambda>x. x \<noteq> c) (rev s))), rev (takeWhile (\<lambda>x. x \<noteq> c) (rev s))]
      else [s])"

text \<open>\<open>s.split(c)\<close>: split at every occurrence of \<open>c\<close>; the result is never empty.\<close>

fun split_sep :: "char \<Rightarrow> string \<Rightarrow> string list" where
  "split_sep c [] = [[]]"
| "split_sep c (x # xs) =
     (if x = c then [] # split_sep c xs
      else (case split_sep c xs of [] \<Rightarrow> [[x]] | y # ys \<Rightarrow> (x # y) # ys))"

text \<open>\<open>sep.join(comps)\<close>.\<close>

fun sep_join :: "string \<Rightarrow> string list \<Rightarrow> string" where
  "sep_join sep [] = []"
| "sep_join sep [x] = x"
| "sep_join sep (x # y # ys) = x @ sep @ sep_join sep (y # ys)"

text \<open>
  The functions of \<open>posixpath\<close> that the program calls: \<open>os.path.join\<close> (two arguments),
  \<open>os.path.normpath\<close>, \<open>os.path.abspath\<close> (the current directory is an argument) and
  \<open>os.path.commonprefix\<close> on a two-element list, which compares character by character.
\<close>

definition path_join :: "string \<Rightarrow> string \<Rightarrow> string" where
  "path_join a b =
     (if startswith b ''/'' \<or> a = [] then b
      else if endswith a ''/'' then a @ b
      else a @ ''/'' @ b)"

fun normpath_comps :: "nat \<Rightarrow> string list \<Rightarrow> string list \<Rightarrow> string list" where
  "normpath_comps initial_slashes new_comps [] = new_comps"
| "normpath_comps initial_slashes new_comps (part # comps) =
     (if part = [] \<or> part = ''.'' then normpath_comps initial_slashes new_comps comps
      else if part \<noteq> ''..'' \<or> (initial_slashes = 0 \<and> new_comps = [])
              \<or> (new_comps \<noteq> [] \<and> last new_comps = ''..'')
        then normpath_comps initial_slashes (new_comps @ [part]) comps
      else if new_comps \<noteq> [] then normpath_comps initial_slashes (butlast new_comps) comps
      else normpath_comps initial_slashes new_comps comps)"

definition normpath :: "string \<Rightarrow> string" where
  "normpath p =
     (if p = [] then ''.''
      else
        let initial_slashes =
              (if startswith p ''/''
               then (if startswith p ''//'' \<and> \<not> startswith p ''///'' then 2 else 1)
               else (0::nat));
            comps = normpath_comps initial_slashes [] (split_sep CHR ''/'' p);
            q = replicate initial_slashes CHR ''/'' @ sep_join ''/'' comps
        in if q = [] then ''.'' else q)"

definition abspath :: "string \<Rightarrow> string \<Rightarrow> string" where
  "abspath cwd p = normpath (if startswith p ''/'' then p else path_join cwd p)"

fun commonprefix :: "string \<Rightarrow> string \<Rightarrow> string" where
  "commonprefix (x # xs) (y # ys) = (if x = y then x # commonprefix xs ys else [])"
| "commonprefix _ _ = []"

section \<open>Errors\<close>

text \<open>
  The exceptions the program raises itself (\<open>ValidationError\<close>, \<open>TypeError\<close>, the
  \<open>Exception\<close> of the tar check) and the ones raised by the Python runtime and the
  collaborators on its behalf. \<open>LibraryError\<close> carries the message of an exception
  raised inside a collaborator, so that two such exceptions can be told apart.
\<close>

datatype error =
    ValidationError
  | TypeError
  | AttemptedPathTraversal
  | IndexError
  | AttributeError
  | FileNotFoundError
  | FileExistsError
  | LibraryError string

section \<open>The collaborators\<close>

text \<open>
  What the geometry library hands to the program: a geometry has a type name
  (\<open>GetGeometryName\<close>) and a text form (\<open>str(geom)\<close>, its WKT export); a feature
  has a geometry or none (\<open>feature.geometry()\<close> is \<open>None\<close>); a layer is the sequence
  of its features and a datasource the sequence of its layers.
\<close>

datatype geometry = Geometry (GetGeometryName: string) (ExportToWkt: string)

type_synonym feature = "geometry option"
type_synonym layer = "feature list"
type_synonym datasource = "layer list"

text \<open>The value \<open>json.loads\<close> returns; only an object is a Python \<open>dict\<close>.\<close>

datatype json =
    JObject "(string \<times> json) list"
  | JArray "json list"
  | JString string
  | JNumber int
  | JBool bool
  | JNull

fun is_dict :: "json \<Rightarrow> bool" where
  "is_dict (JObject _) = True"
| "is_dict _ = False"

text \<open>
  Everything outside the program is a field of the record \<open>world\<close>: the Django settings,
  the MIME sniffer (\<open>magic.from_file\<close>, which raises on a path it cannot read),
  \<open>os.path.getsize\<close>, the two identifiers \<open>uuid.uuid4()\<close> yields in a run (the output's
  first, the workspace's second), the regular-file members of an archive (or the error
  its reader raises), what \<open>subprocess.call\<close> of \<open>7z x\<close> does for an archive and a working
  directory (the absolute paths of the files the command creates, or the error the call
  raises, as when the command is not installed), the text of a file, \<open>json.loads\<close>,
  Django's \<open>DataSource\<close> constructor, \<open>driver.Open\<close> of the driver of a given name and
  \<open>ogr.Open\<close> (both return \<open>None\<close> on failure), and \<open>ogr.CreateGeometryFromWkt\<close>. The
  current directory is not here: the program changes it, so it is part of the state.
\<close>

record world =
  MAX_VECTOR_FILE_SIZE :: int
  AOI_TEMP_ROOT :: string
  from_file :: "string \<Rightarrow> error + string"
  getsize :: "string \<Rightarrow> int"
  uuid4_output :: string
  uuid4_workspace :: string
  zip_namelist :: "string \<Rightarrow> error + string list"
  tar_getmembers :: "string \<Rightarrow> error + string list"
  sevenz_x :: "string \<Rightarrow> string \<Rightarrow> error + string list"
  read_text :: "string \<Rightarrow> error + string"
  json_loads :: "string \<Rightarrow> error + json"
  DataSource :: "string \<Rightarrow> error + unit"
  driver_Open :: "string \<Rightarrow> string \<Rightarrow> datasource option"
  ogr_Open :: "string \<Rightarrow> datasource option"
  CreateGeometryFromWkt :: "string \<Rightarrow> geometry option"

section \<open>validators.py: format detection\<close>

definition SHP_SET :: "string set" where
  "SHP_SET = {''dbf'', ''shp'', ''shx'', ''prj''}"

text \<open>
  The loop of \<open>ShapeValidator.driver_validation\<close>: the test is made on the lower-cased
  name, the extension is taken from the name as it is. Indexing the second part of the
  split raises \<open>IndexError\<close> when there is none.
\<close>

fun files_extension :: "string list \<Rightarrow> error + string list" where
  "files_extension [] = Inr []"
| "files_extension (el # files) =
     (if length (rsplit1 CHR ''.'' (lower el)) > 1
      then (case rsplit1 CHR ''.'' el of
              _ # ext # _ \<Rightarrow>
                (case files_extension files of
                   Inl e \<Rightarrow> Inl e
                 | Inr exts \<Rightarrow> Inr (ext # exts))
            | _ \<Rightarrow> Inl IndexError)
      else files_extension files)"

definition ShapeValidator_driver_validation :: "string list \<Rightarrow> error + bool" where
  "ShapeValidator_driver_validation files =
     (case files_extension files of
        Inl e \<Rightarrow> Inl e
      | Inr exts \<Rightarrow> if SHP_SET \<subseteq> set exts then Inr True else Inr False)"

definition get_shp_files :: "string list \<Rightarrow> string list" where
  "get_shp_files extracted_files = filter (\<lambda>file. endswith file ''.shp'') extracted_files"

text \<open>
  In each validator the sniffer is called first, outside any \<open>try\<close>: what it raises
  leaves the validator.
\<close>

definition KMLValidator_driver_validation :: "world \<Rightarrow> string \<Rightarrow> error + bool" where
  "KMLValidator_driver_validation w file =
     (case from_file w file of
        Inl e \<Rightarrow> Inl e
      | Inr mime_type \<Rightarrow>
          if mime_type \<in> set [''application/xml'', ''text/plain'', ''text/html'']
             \<and> endswith (lower file) ''.kml''
          then Inr True else Inr False)"

definition KMZValidator_driver_validation :: "world \<Rightarrow> string \<Rightarrow> error + bool" where
  "KMZValidator_driver_validation w file =
     (case from_file w file of
        Inl e \<Rightarrow> Inl e
      | Inr mime_type \<Rightarrow>
          if mime_type \<in> set [''application/xml'', ''text/plain'']
             \<and> endswith (lower file) ''.kml''
          then Inr True else Inr False)"

text \<open>
  \<open>GeoJSONValidator.driver_validation\<close>: the body of the \<open>try\<close> block first, where each
  collaborator may raise, then the function, which calls the sniffer before the \<open>try\<close>
  and whose \<open>except Exception\<close> turns every error of the block into \<open>False\<close>.
  (\<open>ast.literal_eval(json.dumps(s))\<close> gives the text back.)
\<close>

definition GeoJSONValidator_try_body :: "world \<Rightarrow> string \<Rightarrow> error + bool" where
  "GeoJSONValidator_try_body w file =
     (case read_text w file of
        Inl e \<Rightarrow> Inl e
      | Inr data \<Rightarrow>
          (case json_loads w data of
             Inl e \<Rightarrow> Inl e
           | Inr v \<Rightarrow>
               if \<not> is_dict v then Inr False
               else (case DataSource w file of
                       Inl e \<Rightarrow> Inl e
                     | Inr _ \<Rightarrow> Inr True)))"

definition GeoJSONValidator_driver_validation :: "world \<Rightarrow> string \<Rightarrow> error + bool" where
  "GeoJSONValidator_driver_validation w file =
     (case from_file w file of
        Inl e \<Rightarrow> Inl e
      | Inr mime_type \<Rightarrow>
          if mime_type = ''text/plain''
          then (case GeoJSONValidator_try_body w file of
                  Inl e \<Rightarrow> Inr False
                | Inr b \<Rightarrow> Inr b)
          else Inr False)"

section \<open>file\_uploader.py: the constructor\<close>

definition FILE_TYPES :: "string list" where
  "FILE_TYPES = [''application/xml'', ''text/plain'', ''text/html'']"

definition ARCHIVE_TYPES :: "string list" where
  "ARCHIVE_TYPES = [''application/zip'', ''application/x-bzip2'',
                    ''application/x-tar'', ''application/gzip'',
                    ''application/x-xz'', ''application/zip'',
                    ''application/x-7z-compressed'']"

text \<open>The fields of a \<open>VectorFileUploader\<close> that \<open>__init__\<close> sets.\<close>

record uploader =
  self_file :: string
  self_mime_type :: string

definition VectorFileUploader_init :: "world \<Rightarrow> string \<Rightarrow> error + uploader" where
  "VectorFileUploader_init w file_path =
     (case from_file w file_path of
        Inl e \<Rightarrow> Inl e
      | Inr mime \<Rightarrow>
          if getsize w file_path \<ge> MAX_VECTOR_FILE_SIZE w then Inl ValidationError
          else if mime \<notin> set FILE_TYPES \<and> mime \<notin> set ARCHIVE_TYPES then Inl TypeError
          else Inr \<lparr>self_file = file_path, self_mime_type = mime\<rparr>)"

section \<open>The file system\<close>

text \<open>
  The state of the process: the list of the regular files and the list of the
  directories that exist, each under its absolute normalised path, and the current
  directory; every operation resolves its argument against the current directory first.
  There are no symbolic links, and the parent directories of a new entry are not
  tracked. \<open>inside d p\<close>: the path \<open>p\<close> lies below the directory \<open>d\<close>.
\<close>

record filesystem =
  fs_files :: "string list"
  fs_dirs :: "string list"
  fs_cwd :: string

definition inside :: "string \<Rightarrow> string \<Rightarrow> bool" where
  "inside d p =
     (let dp = (if endswith d ''/'' then d else d @ ''/'')
      in startswith p dp \<and> length dp < length p)"

text \<open>\<open>os.remove\<close> raises when the file does not exist.\<close>

definition os_remove :: "string \<Rightarrow> filesystem \<Rightarrow> error + filesystem" where
  "os_remove p fs =
     (let a = abspath (fs_cwd fs) p in
      if a \<in> set (fs_files fs) then Inr (fs\<lparr>fs_files := removeAll a (fs_files fs)\<rparr>)
      else Inl FileNotFoundError)"

text \<open>\<open>os.mkdir\<close> raises when the path exists already.\<close>

definition os_mkdir :: "string \<Rightarrow> filesystem \<Rightarrow> error + filesystem" where
  "os_mkdir p fs =
     (let a = abspath (fs_cwd fs) p in
      if a \<in> set (fs_files fs) \<or> a \<in> set (fs_dirs fs) then Inl FileExistsError
      else Inr (fs\<lparr>fs_dirs := fs_dirs fs @ [a]\<rparr>))"

text \<open>\<open>shutil.rmtree(p, ignore_errors=True)\<close>: nothing happens unless \<open>p\<close> is a directory.\<close>

definition rmtree :: "string \<Rightarrow> filesystem \<Rightarrow> filesystem" where
  "rmtree p fs =
     (let a = abspath (fs_cwd fs) p in
      if a \<in> set (fs_dirs fs)
      then fs\<lparr>fs_files := filter (\<lambda>q. \<not> inside a q) (fs_files fs),
              fs_dirs := filter (\<lambda>q. q \<noteq> a \<and> \<not> inside a q) (fs_dirs fs)\<rparr>
      else fs)"

text \<open>\<open>os.chdir\<close> raises when the path is not a directory.\<close>

definition os_chdir :: "string \<Rightarrow> filesystem \<Rightarrow> error + filesystem" where
  "os_chdir p fs =
     (let a = abspath (fs_cwd fs) p in
      if a \<in> set (fs_dirs fs) then Inr (fs\<lparr>fs_cwd := a\<rparr>)
      else Inl FileNotFoundError)"

text \<open>Creating a regular file, or overwriting it, at an absolute normalised path.\<close>

definition write_file :: "string \<Rightarrow> filesystem \<Rightarrow> filesystem" where
  "write_file a fs = (if a \<in> set (fs_files fs) then fs else fs\<lparr>fs_files := fs_files fs @ [a]\<rparr>)"

section \<open>archive\_reader.py\<close>

definition TAR_ARCHIVES_MIME_TYPES :: "string list" where
  "TAR_ARCHIVES_MIME_TYPES = [''application/x-bzip2'', ''application/x-tar'',
                              ''application/gzip'', ''application/x-xz'']"

definition ZIP_FILE_MIME_TYPES :: "string list" where
  "ZIP_FILE_MIME_TYPES = [''application/zip'']"

definition SEVEN_ZIP_MIME_TYPES :: "string list" where
  "SEVEN_ZIP_MIME_TYPES = [''application/x-7z-compressed'']"

record archive_reader =
  ar_mime_type :: string
  ar_file :: string
  tmp_folder :: string

definition ArchiveReader_init ::
  "world \<Rightarrow> string \<Rightarrow> filesystem \<Rightarrow> filesystem \<times> (error + archive_reader)" where
  "ArchiveReader_init w file_path fs =
     (case from_file w file_path of
        Inl e \<Rightarrow> (fs, Inl e)
      | Inr mime \<Rightarrow>
          if mime \<in> set TAR_ARCHIVES_MIME_TYPES \<or> mime \<in> set ZIP_FILE_MIME_TYPES
             \<or> mime \<in> set SEVEN_ZIP_MIME_TYPES
          then (let tmp = path_join (AOI_TEMP_ROOT w) (uuid4_workspace w) in
                case os_mkdir tmp fs of
                  Inl e \<Rightarrow> (fs, Inl e)
                | Inr fs' \<Rightarrow>
                    (fs', Inr \<lparr>ar_mime_type = mime, ar_file = file_path, tmp_folder = tmp\<rparr>))
          else (fs, Inl ValidationError))"

text \<open>\<open>__absolute_file_paths\<close>: the walk lists the regular files below the directory.\<close>

definition absolute_file_paths :: "string \<Rightarrow> filesystem \<Rightarrow> string list" where
  "absolute_file_paths directory fs =
     filter (inside (abspath (fs_cwd fs) directory)) (fs_files fs)"

text \<open>
  \<open>ZipFile.extractall\<close> drops the empty, \<open>.\<close> and \<open>..\<close> components of a member's name
  before it joins the name to the target directory.
\<close>

definition zip_arcname :: "string \<Rightarrow> string" where
  "zip_arcname name =
     sep_join ''/'' (filter (\<lambda>x. x \<noteq> [] \<and> x \<noteq> ''.'' \<and> x \<noteq> ''..'') (split_sep CHR ''/'' name))"

definition zip_extractall :: "string \<Rightarrow> string list \<Rightarrow> filesystem \<Rightarrow> filesystem" where
  "zip_extractall path names fs =
     foldl (\<lambda>fs name. write_file (abspath (fs_cwd fs) (normpath (path_join path (zip_arcname name)))) fs)
       fs names"

definition read_from_zip ::
  "world \<Rightarrow> archive_reader \<Rightarrow> filesystem \<Rightarrow> filesystem \<times> (error + string list)" where
  "read_from_zip w ar fs =
     (case zip_namelist w (ar_file ar) of
        Inl e \<Rightarrow> (fs, Inl e)
      | Inr names \<Rightarrow>
          (let fs1 = zip_extractall (tmp_folder ar) names fs in
           case os_remove (ar_file ar) fs1 of
             Inl e \<Rightarrow> (fs1, Inl e)
           | Inr fs2 \<Rightarrow> (fs2, Inr (absolute_file_paths (tmp_folder ar) fs2))))"

text \<open>
  The tar path: \<open>is_within_directory\<close> and \<open>safe_extract\<close> as written, then
  \<open>TarFile.extractall\<close>, which writes each member at the target directory joined with
  the member's name.
\<close>

definition is_within_directory :: "filesystem \<Rightarrow> string \<Rightarrow> string \<Rightarrow> bool" where
  "is_within_directory fs directory target =
     (let abs_directory = abspath (fs_cwd fs) directory;
          abs_target = abspath (fs_cwd fs) target;
          prefix = commonprefix abs_directory abs_target
      in prefix = abs_directory)"

fun safe_extract_check :: "filesystem \<Rightarrow> string \<Rightarrow> string list \<Rightarrow> error + unit" where
  "safe_extract_check fs path [] = Inr ()"
| "safe_extract_check fs path (member_name # members) =
     (let member_path = path_join path member_name in
      if \<not> is_within_directory fs path member_path then Inl AttemptedPathTraversal
      else safe_extract_check fs path members)"

definition tar_extractall :: "string \<Rightarrow> string list \<Rightarrow> filesystem \<Rightarrow> filesystem" where
  "tar_extractall path names fs =
     foldl (\<lambda>fs name. write_file (abspath (fs_cwd fs) (path_join path name)) fs) fs names"

definition safe_extract ::
  "string \<Rightarrow> string list \<Rightarrow> filesystem \<Rightarrow> filesystem \<times> (error + unit)" where
  "safe_extract path members fs =
     (case safe_extract_check fs path members of
        Inl e \<Rightarrow> (fs, Inl e)
      | Inr _ \<Rightarrow> (tar_extractall path members fs, Inr ()))"

definition read_from_tar ::
  "world \<Rightarrow> archive_reader \<Rightarrow> filesystem \<Rightarrow> filesystem \<times> (error + string list)" where
  "read_from_tar w ar fs =
     (case tar_getmembers w (ar_file ar) of
        Inl e \<Rightarrow> (fs, Inl e)
      | Inr members \<Rightarrow>
          (case safe_extract (tmp_folder ar) members fs of
             (fs1, Inl e) \<Rightarrow> (fs1, Inl e)
           | (fs1, Inr _) \<Rightarrow>
               (case os_remove (ar_file ar) fs1 of
                  Inl e \<Rightarrow> (fs1, Inl e)
                | Inr fs2 \<Rightarrow> (fs2, Inr (absolute_file_paths (tmp_folder ar) fs2)))))"

text \<open>
  The 7z path, statement by statement: the current directory is remembered
  (\<open>path.abspath(curdir)\<close>), the process moves into the workspace, the command runs
  there (its exit status is not read; the files it has created are the world's), the
  process moves back, the archive is removed. Nothing restores the current directory
  when \<open>subprocess.call\<close> raises: the process is then left in the workspace.
\<close>

definition read_from_7z ::
  "world \<Rightarrow> archive_reader \<Rightarrow> filesystem \<Rightarrow> filesystem \<times> (error + string list)" where
  "read_from_7z w ar fs =
     (let current_directory = abspath (fs_cwd fs) ''.'' in
      case os_chdir (tmp_folder ar) fs of
        Inl e \<Rightarrow> (fs, Inl e)
      | Inr fs1 \<Rightarrow>
          (case sevenz_x w (ar_file ar) (fs_cwd fs1) of
             Inl e \<Rightarrow> (fs1, Inl e)
           | Inr created \<Rightarrow>
               (let fs2 = foldl (\<lambda>fs a. write_file a fs) fs1 created in
                case os_chdir current_directory fs2 of
                  Inl e \<Rightarrow> (fs2, Inl e)
                | Inr fs3 \<Rightarrow>
                    (case os_remove (ar_file ar) fs3 of
                       Inl e \<Rightarrow> (fs3, Inl e)
                     | Inr fs4 \<Rightarrow> (fs4, Inr (absolute_file_paths (tmp_folder ar) fs4))))))"

text \<open>\<open>get_files\<close> returns \<open>None\<close> when no branch is taken.\<close>

definition get_files ::
  "world \<Rightarrow> archive_reader \<Rightarrow> filesystem
     \<Rightarrow> filesystem \<times> (error + (string list \<times> string) option)" where
  "get_files w ar fs =
     (if ar_mime_type ar \<in> set ZIP_FILE_MIME_TYPES
      then (case read_from_zip w ar fs of
              (fs1, Inl e) \<Rightarrow> (fs1, Inl e)
            | (fs1, Inr files) \<Rightarrow> (fs1, Inr (Some (files, tmp_folder ar))))
      else if ar_mime_type ar \<in> set TAR_ARCHIVES_MIME_TYPES
      then (case read_from_tar w ar fs of
              (fs1, Inl e) \<Rightarrow> (fs1, Inl e)
            | (fs1, Inr files) \<Rightarrow> (fs1, Inr (Some (files, tmp_folder ar))))
      else if ar_mime_type ar \<in> set SEVEN_ZIP_MIME_TYPES
      then (case read_from_7z w ar fs of
              (fs1, Inl e) \<Rightarrow> (fs1, Inl e)
            | (fs1, Inr files) \<Rightarrow> (fs1, Inr (Some (files, tmp_folder ar))))
      else (fs, Inr None))"

section \<open>validators.py: writing geometries\<close>

text \<open>
  The output datasource is the list of its layers, each a name and the features created
  in it; an output feature carries the geometry set on it, or none.
\<close>

type_synonym out_layer = "string \<times> feature list"

text \<open>
  \<open>__set_data_source\<close>: the range of the loop is fixed by the datasource opened first,
  while the body reads the layer from the current one, which \<open>ogr.Open\<close> may have
  replaced (by \<open>None\<close>, or by a datasource with fewer layers).
\<close>

fun set_data_source_loop ::
  "world \<Rightarrow> string \<Rightarrow> nat list \<Rightarrow> datasource option \<Rightarrow> error + datasource option" where
  "set_data_source_loop w file_name [] dataSource = Inr dataSource"
| "set_data_source_loop w file_name (layer_index # rest) dataSource =
     (case dataSource of
        None \<Rightarrow> Inl AttributeError
      | Some d \<Rightarrow>
          if layer_index < length d
          then (if length (d ! layer_index) = 0
                then set_data_source_loop w file_name rest (ogr_Open w file_name)
                else set_data_source_loop w file_name rest dataSource)
          else Inl AttributeError)"

definition set_data_source :: "world \<Rightarrow> string \<Rightarrow> string \<Rightarrow> error + datasource option" where
  "set_data_source w driver_name file_name =
     (case driver_Open w driver_name file_name of
        None \<Rightarrow> Inl AttributeError
      | Some d \<Rightarrow> set_data_source_loop w file_name [0..<length d] (Some d))"

text \<open>
  The \<open>while feature\<close> loop. With a non-empty \<open>types\<close> the name of the geometry is read,
  which fails on a feature without geometry; with an empty one the text of the geometry
  is parsed back, and the text of \<open>None\<close> is \<open>None\<close>.
\<close>

fun write_features ::
  "world \<Rightarrow> string list \<Rightarrow> feature list \<Rightarrow> feature list \<Rightarrow> error + feature list" where
  "write_features w types [] out_features = Inr out_features"
| "write_features w types (feature # rest) out_features =
     (case feature of
        None \<Rightarrow>
          if types \<noteq> [] then Inl AttributeError
          else write_features w types rest (out_features @ [CreateGeometryFromWkt w ''None''])
      | Some geom \<Rightarrow>
          if (types \<noteq> [] \<and> GetGeometryName geom \<in> set types) \<or> types = []
          then write_features w types rest
                 (out_features @ [CreateGeometryFromWkt w (ExportToWkt geom)])
          else write_features w types rest (out_features @ [None]))"

text \<open>
  The loop over the source's layers: \<open>data_source.GetLayer()\<close> is the first layer of
  the output, created under the name \<open>layer_1\<close> when the output has none.
\<close>

fun write_layers ::
  "world \<Rightarrow> string list \<Rightarrow> layer list \<Rightarrow> out_layer list \<Rightarrow> error + out_layer list" where
  "write_layers w types [] data_source = Inr data_source"
| "write_layers w types (ds_layer # rest) data_source =
     (case (if data_source = [] then data_source @ [(''layer_1'', [])] else data_source) of
        [] \<Rightarrow> Inl AttributeError
      | (name, out_features) # others \<Rightarrow>
          (case write_features w types ds_layer out_features of
             Inl e \<Rightarrow> Inl e
           | Inr out_features' \<Rightarrow>
               write_layers w types rest ((name, out_features') # others)))"

definition write_geometry_to_data_source ::
  "world \<Rightarrow> string \<Rightarrow> out_layer list \<Rightarrow> string \<Rightarrow> string list \<Rightarrow> error + out_layer list" where
  "write_geometry_to_data_source w driver_name data_source tmp_file_name types =
     (case set_data_source w driver_name tmp_file_name of
        Inl e \<Rightarrow> Inl e
      | Inr None \<Rightarrow> Inl AttributeError
      | Inr (Some d) \<Rightarrow> write_layers w types d data_source)"

text \<open>\<open>ShapeValidator.get_geometry_from_shp_files\<close>.\<close>

fun shp_files_loop ::
  "world \<Rightarrow> string list \<Rightarrow> string list \<Rightarrow> out_layer list \<Rightarrow> error + out_layer list" where
  "shp_files_loop w types [] data_source = Inr data_source"
| "shp_files_loop w types (f # shp_files) data_source =
     (if endswith f ''.shp''
      then (case write_geometry_to_data_source w ''ESRI Shapefile'' data_source f types of
              Inl e \<Rightarrow> Inl e
            | Inr data_source' \<Rightarrow> shp_files_loop w types shp_files data_source')
      else shp_files_loop w types shp_files data_source)"

definition get_geometry_from_shp_files ::
  "world \<Rightarrow> out_layer list \<Rightarrow> string list \<Rightarrow> string list \<Rightarrow> error + out_layer list" where
  "get_geometry_from_shp_files w data_source extracted_files types =
     (let shp_files = get_shp_files extracted_files in
      if length shp_files \<ge> 1 then shp_files_loop w types shp_files data_source
      else Inr data_source)"

section \<open>file\_uploader.py: the run\<close>

datatype validator = KMZValidator | KMLValidator | GeoJSONValidator

fun driver_name_of :: "validator \<Rightarrow> string" where
  "driver_name_of KMZValidator = ''KML''"
| "driver_name_of KMLValidator = ''KML''"
| "driver_name_of GeoJSONValidator = ''GeoJson''"

definition get_driver_for_file :: "world \<Rightarrow> string \<Rightarrow> error + validator option" where
  "get_driver_for_file w f =
     (case KMZValidator_driver_validation w f of
        Inl e \<Rightarrow> Inl e
      | Inr kmz \<Rightarrow>
          if kmz then Inr (Some KMZValidator)
          else (case KMLValidator_driver_validation w f of
                  Inl e \<Rightarrow> Inl e
                | Inr kml \<Rightarrow>
                    if kml then Inr (Some KMLValidator)
                    else (case GeoJSONValidator_driver_validation w f of
                            Inl e \<Rightarrow> Inl e
                          | Inr b \<Rightarrow> if b then Inr (Some GeoJSONValidator) else Inr None)))"

text \<open>
  Lines 86 to 93 of \<open>__write_geometry_by_type\<close>: the candidate files and the value of
  \<open>TEMP_FOLDER\<close>, which the assignment sets only once \<open>get_files\<close> has returned.
\<close>

definition materialize_candidates ::
  "world \<Rightarrow> uploader \<Rightarrow> filesystem \<Rightarrow> filesystem \<times> string option \<times> (error + string list)" where
  "materialize_candidates w u fs =
     (if self_mime_type u \<in> set FILE_TYPES then (fs, None, Inr [self_file u])
      else (case ArchiveReader_init w (self_file u) fs of
              (fs1, Inl e) \<Rightarrow> (fs1, None, Inl e)
            | (fs1, Inr ar) \<Rightarrow>
                (case get_files w ar fs1 of
                   (fs2, Inl e) \<Rightarrow> (fs2, None, Inl e)
                 | (fs2, Inr None) \<Rightarrow> (fs2, None, Inl TypeError)
                 | (fs2, Inr (Some (files, tmp))) \<Rightarrow> (fs2, Some tmp, Inr files))))"

text \<open>
  The \<open>while self.file\<close> loop, on the files in the order \<open>pop\<close> takes them (last
  first); an empty name ends the loop. In \<open>write_geometry_by_type\<close> below, the reader
  exists exactly when \<open>TEMP_FOLDER\<close> has been set on the path that reaches the final
  \<open>rmtree\<close>, and its \<open>return_temp_dir()\<close> is that folder.
\<close>

fun dispatch_files ::
  "world \<Rightarrow> string list \<Rightarrow> string list \<Rightarrow> out_layer list \<Rightarrow> string list
     \<Rightarrow> error + (out_layer list \<times> string list)" where
  "dispatch_files w geom_types [] data_source shp_files = Inr (data_source, shp_files)"
| "dispatch_files w geom_types (f # pending) data_source shp_files =
     (if f = [] then Inr (data_source, shp_files)
      else (case get_driver_for_file w f of
              Inl e \<Rightarrow> Inl e
            | Inr (Some driver) \<Rightarrow>
                (case write_geometry_to_data_source w (driver_name_of driver) data_source f
                        geom_types of
                   Inl e \<Rightarrow> Inl e
                 | Inr data_source' \<Rightarrow>
                     dispatch_files w geom_types pending data_source' shp_files)
            | Inr None \<Rightarrow> dispatch_files w geom_types pending data_source (shp_files @ [f])))"

definition write_geometry_by_type ::
  "world \<Rightarrow> uploader \<Rightarrow> string list \<Rightarrow> filesystem \<Rightarrow> out_layer list
     \<Rightarrow> filesystem \<times> string option \<times> (error + out_layer list)" where
  "write_geometry_by_type w u geom_types fs data_source =
     (case materialize_candidates w u fs of
        (fs1, TEMP_FOLDER, Inl e) \<Rightarrow> (fs1, TEMP_FOLDER, Inl e)
      | (fs1, TEMP_FOLDER, Inr files) \<Rightarrow>
          (case rev files of
             [] \<Rightarrow> (fs1, TEMP_FOLDER, Inl IndexError)
           | f # pending \<Rightarrow>
               (case dispatch_files w geom_types (f # pending) data_source [] of
                  Inl e \<Rightarrow> (fs1, TEMP_FOLDER, Inl e)
                | Inr (data_source1, shp_files) \<Rightarrow>
                    (case (if shp_files \<noteq> []
                           then get_geometry_from_shp_files w data_source1 shp_files geom_types
                           else Inr data_source1) of
                       Inl e \<Rightarrow> (fs1, TEMP_FOLDER, Inl e)
                     | Inr data_source2 \<Rightarrow>
                         ((case TEMP_FOLDER of
                             Some tmp \<Rightarrow> rmtree tmp fs1
                           | None \<Rightarrow> fs1),
                          TEMP_FOLDER, Inr data_source2)))))"

text \<open>
  \<open>create_output_data_source\<close>. \<open>CreateDataSource\<close> creates the file of the output;
  the result of a successful run is the name and what has been written under it.
\<close>

definition output_name :: "world \<Rightarrow> string" where
  "output_name w = path_join (AOI_TEMP_ROOT w) (uuid4_output w @ ''.geojson'')"

definition create_output_data_source ::
  "world \<Rightarrow> uploader \<Rightarrow> string list \<Rightarrow> filesystem
     \<Rightarrow> filesystem \<times> (error + (string \<times> out_layer list))" where
  "create_output_data_source w u types fs =
     (let name = output_name w;
          fs0 = write_file (abspath (fs_cwd fs) name) fs
      in case write_geometry_by_type w u types fs0 [] of
           (fs1, TEMP_FOLDER, Inl e) \<Rightarrow>
             (let fs2 = (case TEMP_FOLDER of
                           Some tmp \<Rightarrow> if tmp \<noteq> [] then rmtree tmp fs1 else fs1
                         | None \<Rightarrow> fs1)
              in case os_remove name fs2 of
                   Inl e' \<Rightarrow> (fs2, Inl e')
                 | Inr fs3 \<Rightarrow> (fs3, Inl e))
         | (fs1, TEMP_FOLDER, Inr data_source) \<Rightarrow> (fs1, Inr (name, data_source)))"

text \<open>A run: the constructor, then \<open>create_output_data_source\<close>.\<close>

definition run ::
  "world \<Rightarrow> string \<Rightarrow> string list \<Rightarrow> filesystem
     \<Rightarrow> filesystem \<times> (error + (string \<times> out_layer list))" where
  "run w file_path types fs =
     (case VectorFileUploader_init w file_path of
        Inl e \<Rightarrow> (fs, Inl e)
      | Inr u \<Rightarrow> create_output_data_source w u types fs)"

section \<open>Reading a result\<close>

definition layer_count :: "error + (string \<times> out_layer list) \<Rightarrow> nat option" where
  "layer_count r = (case r of Inl e \<Rightarrow> None | Inr (name, layers) \<Rightarrow> Some (length layers))"

definition feature_count :: "error + (string \<times> out_layer list) \<Rightarrow> nat option" where
  "feature_count r =
     (case r of
        Inl e \<Rightarrow> None
      | Inr (name, layers) \<Rightarrow> Some (sum_list (map (\<lambda>l. length (snd l)) layers)))"




text \<open>
  The Shapefile pass in the words of the specification: a candidate is handed to the
  Shapefile driver, unless a candidate before it has failed.
\<close>

definition then_write ::
  "world \<Rightarrow> string list \<Rightarrow> error + out_layer list \<Rightarrow> string \<Rightarrow> error + out_layer list" where
  "then_write w types acc f =
     (case acc of
        Inl e \<Rightarrow> Inl e
      | Inr data_source \<Rightarrow> write_geometry_to_data_source w ''ESRI Shapefile'' data_source f types)"

section \<open>Example worlds\<close>

definition example_wkt :: "string \<Rightarrow> geometry option" where
  "example_wkt s =
     (if startswith s ''POINT'' then Some (Geometry ''POINT'' s)
      else if startswith s ''POLYGON'' then Some (Geometry ''POLYGON'' s)
      else None)"

definition base_world :: world where
  "base_world =
     \<lparr> MAX_VECTOR_FILE_SIZE = 1000,
       AOI_TEMP_ROOT = ''/tmp/aoi'',
       from_file = (\<lambda>p. Inr ''application/octet-stream''),
       getsize = (\<lambda>p. 100),
       uuid4_output = ''3e0f9a52-7c1d-4b8e-9f6a-2d5c8b1e4a70'',
       uuid4_workspace = ''b7d4c2a1-5e3f-4a9b-8c6d-1f2e3a4b5c6d'',
       zip_namelist = (\<lambda>p. Inl (LibraryError ''BadZipFile'')),
       tar_getmembers = (\<lambda>p. Inl (LibraryError ''ReadError'')),
       sevenz_x = (\<lambda>p d. Inr []),
       read_text = (\<lambda>p. Inl (LibraryError ''UnicodeDecodeError'')),
       json_loads = (\<lambda>s. Inl (LibraryError ''JSONDecodeError'')),
       DataSource = (\<lambda>p. Inl (LibraryError ''GDALException'')),
       driver_Open = (\<lambda>n p. None),
       ogr_Open = (\<lambda>p. None),
       CreateGeometryFromWkt = example_wkt \<rparr>"

definition upload_path :: string where
  "upload_path = ''/srv/app/media/upload.bin''"

definition base_fs :: filesystem where
  "base_fs = \<lparr> fs_files = [''/srv/app/media/upload.bin''],
               fs_dirs = [''/srv/app'', ''/tmp/aoi''],
               fs_cwd = ''/srv/app'' \<rparr>"

definition workspace_path :: string where
  "workspace_path = ''/tmp/aoi/b7d4c2a1-5e3f-4a9b-8c6d-1f2e3a4b5c6d''"

definition output_path :: string where
  "output_path = ''/tmp/aoi/3e0f9a52-7c1d-4b8e-9f6a-2d5c8b1e4a70.geojson''"

text \<open>A plain-text upload whose size is exactly the maximum.\<close>

definition size_limit_world :: world where
  "size_limit_world = base_world\<lparr>from_file := (\<lambda>p. Inr ''text/plain''), getsize := (\<lambda>p. 1000)\<rparr>"

text \<open>A small upload of an unsupported type.\<close>

definition png_world :: world where
  "png_world = base_world\<lparr>from_file := (\<lambda>p. Inr ''image/png'')\<rparr>"

text \<open>A tar upload with the given member names.\<close>

definition tar_world :: "string list \<Rightarrow> world" where
  "tar_world names =
     base_world\<lparr>from_file := (\<lambda>p. Inr ''application/x-tar''), tar_getmembers := (\<lambda>p. Inr names)\<rparr>"

text \<open>
  A member name that leads to a sibling of the workspace whose name extends the
  workspace's, and the place it is written at.
\<close>

definition sibling_entry :: string where
  "sibling_entry = ''../b7d4c2a1-5e3f-4a9b-8c6d-1f2e3a4b5c6dx/evil''"

definition sibling_target :: string where
  "sibling_target = ''/tmp/aoi/b7d4c2a1-5e3f-4a9b-8c6d-1f2e3a4b5c6dx/evil''"

text \<open>A 7z upload whose command fails and creates nothing.\<close>

definition failed_7z_world :: world where
  "failed_7z_world = base_world\<lparr>from_file := (\<lambda>p. Inr ''application/x-7z-compressed'')\<rparr>"

text \<open>
  The end-to-end example: a ZIP with \<open>a.geojson\<close> (three points) and \<open>b.kml\<close> (two
  polygons).
\<close>

definition a_geojson :: string where
  "a_geojson = ''/tmp/aoi/b7d4c2a1-5e3f-4a9b-8c6d-1f2e3a4b5c6d/a.geojson''"

definition b_kml :: string where
  "b_kml = ''/tmp/aoi/b7d4c2a1-5e3f-4a9b-8c6d-1f2e3a4b5c6d/b.kml''"

definition a_features :: layer where
  "a_features = [Some (Geometry ''POINT'' ''POINT (1 1)''),
                 Some (Geometry ''POINT'' ''POINT (2 2)''),
                 Some (Geometry ''POINT'' ''POINT (3 3)'')]"

definition b_features :: layer where
  "b_features = [Some (Geometry ''POLYGON'' ''POLYGON ((0 0,0 1,1 1,0 0))''),
                 Some (Geometry ''POLYGON'' ''POLYGON ((5 5,5 6,6 6,5 5))'')]"

definition zip_world :: world where
  "zip_world =
     base_world\<lparr>
       from_file := (\<lambda>p. if p = a_geojson then Inr ''text/plain''
                         else if p = b_kml then Inr ''application/xml''
                         else Inr ''application/zip''),
       zip_namelist := (\<lambda>p. Inr [''a.geojson'', ''b.kml'']),
       read_text := (\<lambda>p. if p = a_geojson then Inr ''{}'' else Inl (LibraryError ''UnicodeDecodeError'')),
       json_loads := (\<lambda>s. if s = ''{}'' then Inr (JObject []) else Inl (LibraryError ''JSONDecodeError'')),
       DataSource := (\<lambda>p. if p = a_geojson then Inr () else Inl (LibraryError ''GDALException'')),
       driver_Open := (\<lambda>n p. if n = ''GeoJson'' \<and> p = a_geojson then Some [a_features]
                             else if n = ''KML'' \<and> p = b_kml then Some [b_features]
                             else None)\<rparr>"

text \<open>
  A ZIP with \<open>x.shp\<close>, \<open>x.shx\<close> and \<open>x.dbf\<close> but no \<open>x.prj\<close>; the Shapefile driver reads
  the one polygon of \<open>x.shp\<close>.
\<close>

definition x_shp :: string where
  "x_shp = ''/tmp/aoi/b7d4c2a1-5e3f-4a9b-8c6d-1f2e3a4b5c6d/x.shp''"

definition x_shx :: string where
  "x_shx = ''/tmp/aoi/b7d4c2a1-5e3f-4a9b-8c6d-1f2e3a4b5c6d/x.shx''"

definition x_dbf :: string where
  "x_dbf = ''/tmp/aoi/b7d4c2a1-5e3f-4a9b-8c6d-1f2e3a4b5c6d/x.dbf''"

definition shp_world :: world where
  "shp_world =
     base_world\<lparr>
       from_file := (\<lambda>p. if p = x_shp \<or> p = x_shx \<or> p = x_dbf
                         then Inr ''application/octet-stream''
                         else Inr ''application/zip''),
       zip_namelist := (\<lambda>p. Inr [''x.shp'', ''x.shx'', ''x.dbf'']),
       driver_Open := (\<lambda>n p. if n = ''ESRI Shapefile'' \<and> p = x_shp
                             then Some [[Some (Geometry ''POLYGON'' ''POLYGON ((0 0,0 1,1 1,0 0))'')]]
                             else None)\<rparr>"

text \<open>A file the sniffer cannot read.\<close>

definition unreadable_world :: world where
  "unreadable_world = base_world\<lparr>from_file := (\<lambda>p. Inl (LibraryError ''MagicException''))\<rparr>"

text \<open>
  A host where \<open>AOI_TEMP_ROOT\<close> is a relative path and the \<open>7z\<close> command is not
  installed, and a 7z upload there.
\<close>

definition missing_7z_world :: world where
  "missing_7z_world =
     base_world\<lparr>
       AOI_TEMP_ROOT := ''aoi_tmp'',
       from_file := (\<lambda>p. Inr ''application/x-7z-compressed''),
       sevenz_x := (\<lambda>p d. Inl (LibraryError ''No such file or directory: 7z''))\<rparr>"

definition relative_root_fs :: filesystem where
  "relative_root_fs = \<lparr> fs_files = [''/srv/app/media/upload.bin''],
                        fs_dirs = [''/srv/app'', ''/srv/app/aoi_tmp''],
                        fs_cwd = ''/srv/app'' \<rparr>"

definition relative_workspace_path :: string where
  "relative_workspace_path = ''/srv/app/aoi_tmp/b7d4c2a1-5e3f-4a9b-8c6d-1f2e3a4b5c6d''"

definition relative_output_path :: string where
  "relative_output_path = ''/srv/app/aoi_tmp/3e0f9a52-7c1d-4b8e-9f6a-2d5c8b1e4a70.geojson''"

text \<open>The uploader the constructor builds for a 7z upload.\<close>

definition sevenz_uploader :: uploader where
  "sevenz_uploader = \<lparr>self_file = upload_path, self_mime_type = ''application/x-7z-compressed''\<rparr>"




section \<open>Notions for the proofs\<close>


section \<open>Format detection\<close>

lemma lower_char_dot: "lower_char c = CHR ''.'' \<longleftrightarrow> c = CHR ''.''"
  unfolding lower_char_def by (auto split: option.splits dest!: map_of_SomeD)

lemma dot_in_lower: "CHR ''.'' \<in> set (lower s) \<longleftrightarrow> CHR ''.'' \<in> set s"
proof -
  have "CHR ''.'' = lower_char x \<longleftrightarrow> x = CHR ''.''" for x
    using lower_char_dot[of x] by auto
  then show ?thesis by (auto simp: lower_def image_iff)
qed

text \<open>The extensions the loop collects: the text after the last dot of each dotted name.\<close>

lemma files_extension_eq:
  "files_extension files =
     Inr (map (\<lambda>f. rev (takeWhile (\<lambda>x. x \<noteq> CHR ''.'') (rev f)))
            (filter (\<lambda>f. CHR ''.'' \<in> set f) files))"
  by (induction files) (simp_all add: rsplit1_def dot_in_lower)

lemma after_last_iff:
  assumes "c \<notin> set e"
  shows "(\<exists>b. f = b @ [c] @ e) \<longleftrightarrow> (c \<in> set f \<and> rev (takeWhile (\<lambda>x. x \<noteq> c) (rev f)) = e)"
proof
  assume "\<exists>b. f = b @ [c] @ e"
  then obtain b where f: "f = b @ [c] @ e" by blast
  have "takeWhile (\<lambda>x. x \<noteq> c) (rev e @ c # rev b) = rev e"
    using assms by (auto simp: takeWhile_tail)
  then show "c \<in> set f \<and> rev (takeWhile (\<lambda>x. x \<noteq> c) (rev f)) = e"
    by (simp add: f)
next
  assume h: "c \<in> set f \<and> rev (takeWhile (\<lambda>x. x \<noteq> c) (rev f)) = e"
  let ?tw = "takeWhile (\<lambda>x. x \<noteq> c) (rev f)"
  let ?dw = "dropWhile (\<lambda>x. x \<noteq> c) (rev f)"
  have ne: "?dw \<noteq> []" using h by (simp add: dropWhile_eq_Nil_conv)
  then have "hd ?dw = c" using hd_dropWhile[of "\<lambda>x. x \<noteq> c" "rev f"] by simp
  with ne have dw: "?dw = c # tl ?dw" by (metis list.collapse)
  have "rev f = ?tw @ ?dw" by simp
  then have "rev f = ?tw @ c # tl ?dw" using dw by metis
  then have "f = rev (tl ?dw) @ [c] @ rev ?tw"
    by (metis rev_swap rev_append append.assoc rev.simps(2) append_Cons append_Nil rev_rev_ident)
  then show "\<exists>b. f = b @ [c] @ e" using h by metis
qed

lemma shp_validation_iff:
  "ShapeValidator_driver_validation files =
     Inr (\<forall>e \<in> SHP_SET. \<exists>f \<in> set files. \<exists>b. f = b @ ''.'' @ e)"
proof -
  let ?ext = "\<lambda>f. rev (takeWhile (\<lambda>x. x \<noteq> CHR ''.'') (rev f))"
  have "\<And>e. e \<in> SHP_SET \<Longrightarrow> CHR ''.'' \<notin> set e" by (auto simp: SHP_SET_def)
  then have "\<And>e f. e \<in> SHP_SET \<Longrightarrow>
      (\<exists>b. f = b @ ''.'' @ e) \<longleftrightarrow> (CHR ''.'' \<in> set f \<and> ?ext f = e)"
    using after_last_iff[of "CHR ''.''"] by simp
  then have "(\<forall>e \<in> SHP_SET. \<exists>f \<in> set files. \<exists>b. f = b @ ''.'' @ e) \<longleftrightarrow>
     SHP_SET \<subseteq> set (map ?ext (filter (\<lambda>f. CHR ''.'' \<in> set f) files))"
    by (auto simp: image_iff)
  then show ?thesis by (simp add: ShapeValidator_driver_validation_def files_extension_eq)
qed


lemma then_write_Inl: "foldl (then_write w types) (Inl e) fs = Inl e"
  by (induction fs) (simp_all add: then_write_def)

lemma then_write_Inr:
  "then_write w types (Inr data_source) f =
     write_geometry_to_data_source w ''ESRI Shapefile'' data_source f types"
  by (simp add: then_write_def)

lemma shp_files_loop_fold:
  "shp_files_loop w types fs data_source =
     foldl (then_write w types) (Inr data_source) (filter (\<lambda>f. endswith f ''.shp'') fs)"
proof (induction fs arbitrary: data_source)
  case Nil
  then show ?case by simp
next
  case (Cons f fs)
  show ?case
  proof (cases "endswith f ''.shp''")
    case False
    with Cons show ?thesis by simp
  next
    case True
    show ?thesis
    proof (cases "write_geometry_to_data_source w ''ESRI Shapefile'' data_source f types")
      case (Inl e)
      with True show ?thesis by (simp add: then_write_Inr then_write_Inl)
    next
      case (Inr d')
      with True Cons.IH[of d'] show ?thesis by (simp add: then_write_Inr)
    qed
  qed
qed

lemma shp_pass_fold:
  "get_geometry_from_shp_files w data_source candidates types =
     foldl (then_write w types) (Inr data_source) (filter (\<lambda>f. endswith f ''.shp'') candidates)"
proof (cases "filter (\<lambda>f. endswith f ''.shp'') candidates = []")
  case True
  then show ?thesis by (simp add: get_geometry_from_shp_files_def get_shp_files_def)
next
  case False
  then have "length (filter (\<lambda>f. endswith f ''.shp'') candidates) \<ge> 1"
    by (cases "filter (\<lambda>f. endswith f ''.shp'') candidates") auto
  then show ?thesis
    by (simp add: get_geometry_from_shp_files_def get_shp_files_def shp_files_loop_fold)
qed

text \<open>
  C6, as the code has it. \<open>ShapeValidator.driver_validation\<close> never raises and returns
  true exactly when, for each of \<open>dbf\<close>, \<open>shp\<close>, \<open>shx\<close> and \<open>prj\<close>, some name of the list
  ends with a dot followed by that extension and nothing else (the extension is the text
  after the last dot, compared as it is written). The Shapefile pass of the orchestrator
  does not ask it: the pass hands every candidate whose name ends in \<open>.shp\<close>, in the
  order of the list, to the Shapefile driver's writing of geometries, until one of them
  fails, whatever other names the list holds.
\<close>

theorem shapefile_set_match:
  "ShapeValidator_driver_validation files =
     Inr (\<forall>e \<in> SHP_SET. \<exists>f \<in> set files. \<exists>b. f = b @ ''.'' @ e)
   \<and> get_geometry_from_shp_files w data_source candidates types =
       foldl (then_write w types) (Inr data_source)
         (filter (\<lambda>f. endswith f ''.shp'') candidates)"
  by (simp add: shp_validation_iff shp_pass_fold)

theorem shapefile_set_match_witness:
  "ShapeValidator_driver_validation [''x.shp'', ''x.dbf'', ''x.shx'', ''x.prj''] = Inr True
   \<and> get_geometry_from_shp_files shp_world [] [x_dbf, x_shx, x_shp] [] =
       Inr [(''layer_1'', [Some (Geometry ''POLYGON'' ''POLYGON ((0 0,0 1,1 1,0 0))'')])]"
proof -
  have 1: "\<exists>b. ''x.shp'' = b @ ''.'' @ ''shp''" by (rule exI[of _ "''x''"]) simp
  have 2: "\<exists>b. ''x.dbf'' = b @ ''.'' @ ''dbf''" by (rule exI[of _ "''x''"]) simp
  have 3: "\<exists>b. ''x.shx'' = b @ ''.'' @ ''shx''" by (rule exI[of _ "''x''"]) simp
  have 4: "\<exists>b. ''x.prj'' = b @ ''.'' @ ''prj''" by (rule exI[of _ "''x''"]) simp
  have a: "\<forall>e \<in> SHP_SET. \<exists>f \<in> set [''x.shp'', ''x.dbf'', ''x.shx'', ''x.prj'']. \<exists>b. f = b @ ''.'' @ e"
    unfolding SHP_SET_def using 1 2 3 4
    by (intro ballI) (elim insertE emptyE; simp only: list.set bex_simps insert_iff; blast)
  have b: "foldl (then_write shp_world []) (Inr [])
             (filter (\<lambda>f. endswith f ''.shp'') [x_dbf, x_shx, x_shp]) =
           Inr [(''layer_1'', [Some (Geometry ''POLYGON'' ''POLYGON ((0 0,0 1,1 1,0 0))'')])]"
    by code_simp
  from a b show ?thesis
    using shapefile_set_match[of "[''x.shp'', ''x.dbf'', ''x.shx'', ''x.prj'']"
                               shp_world "[]" "[x_dbf, x_shx, x_shp]" "[]"]
    by simp
qed

text \<open>
  C6, as the claim has it, fails: in the run on a ZIP with \<open>x.shp\<close>, \<open>x.shx\<close> and \<open>x.dbf\<close>
  and no \<open>x.prj\<close>, the three files are the unmatched candidates, the set-level match on
  them is false, and the geometry of \<open>x.shp\<close> is written to the output all the same.
\<close>

theorem shp_without_prj_is_processed:
  "dispatch_files shp_world [] [x_dbf, x_shx, x_shp] [] [] = Inr ([], [x_dbf, x_shx, x_shp])
   \<and> ShapeValidator_driver_validation [x_dbf, x_shx, x_shp] = Inr False
   \<and> snd (run shp_world upload_path [] base_fs) =
       Inr (output_path, [(''layer_1'', [Some (Geometry ''POLYGON'' ''POLYGON ((0 0,0 1,1 1,0 0))'')])])"
  by code_simp

text \<open>
  C7, as the code has it. When the sniffer returns a MIME type for the file,
  \<open>GeoJSONValidator.driver_validation\<close> returns a boolean whatever the reader of the
  text, the JSON parser and the datasource constructor do, and the boolean is true
  exactly when the type is \<open>text/plain\<close>, the text parses to an object and the datasource
  constructor accepts the file. What the sniffer raises is raised by the validator: the
  call stands before the \<open>try\<close>.
\<close>

theorem geojson_matches_after_sniff:
  "(\<forall>mime. from_file w f = Inr mime \<longrightarrow>
      (\<exists>b. GeoJSONValidator_driver_validation w f = Inr b)
      \<and> (GeoJSONValidator_driver_validation w f = Inr True \<longleftrightarrow>
           (mime = ''text/plain''
            \<and> (\<exists>data kvs. read_text w f = Inr data \<and> json_loads w data = Inr (JObject kvs))
            \<and> DataSource w f = Inr ())))
   \<and> (\<forall>e. from_file w f = Inl e \<longrightarrow> GeoJSONValidator_driver_validation w f = Inl e)"
proof (intro conjI allI impI)
  fix mime assume m: "from_file w f = Inr mime"
  show "\<exists>b. GeoJSONValidator_driver_validation w f = Inr b"
    using m by (cases "GeoJSONValidator_try_body w f")
               (auto simp: GeoJSONValidator_driver_validation_def)
  have "is_dict v \<longleftrightarrow> (\<exists>kvs. v = JObject kvs)" for v by (cases v) auto
  with m show "GeoJSONValidator_driver_validation w f = Inr True \<longleftrightarrow>
           (mime = ''text/plain''
            \<and> (\<exists>data kvs. read_text w f = Inr data \<and> json_loads w data = Inr (JObject kvs))
            \<and> DataSource w f = Inr ())"
    by (auto simp: GeoJSONValidator_driver_validation_def GeoJSONValidator_try_body_def
             split: sum.splits if_splits)
next
  fix e assume "from_file w f = Inl e"
  then show "GeoJSONValidator_driver_validation w f = Inl e"
    by (simp add: GeoJSONValidator_driver_validation_def)
qed

theorem geojson_matches_after_sniff_witness:
  "from_file zip_world a_geojson = Inr ''text/plain''
   \<and> GeoJSONValidator_driver_validation zip_world a_geojson = Inr True
   \<and> from_file unreadable_world upload_path = Inl (LibraryError ''MagicException'')
   \<and> GeoJSONValidator_driver_validation unreadable_world upload_path
       = Inl (LibraryError ''MagicException'')"
proof -
  have h: "from_file zip_world a_geojson = Inr ''text/plain''"
    by (simp add: zip_world_def base_world_def)
  have r: "read_text zip_world a_geojson = Inr ''{}''"
    by (simp add: zip_world_def base_world_def)
  have j: "json_loads zip_world ''{}'' = Inr (JObject [])"
    by (simp add: zip_world_def base_world_def)
  have d: "DataSource zip_world a_geojson = Inr ()"
    by (simp add: zip_world_def base_world_def)
  have u: "from_file unreadable_world upload_path = Inl (LibraryError ''MagicException'')"
    by (simp add: unreadable_world_def base_world_def)
  from r j have c: "\<exists>data kvs. read_text zip_world a_geojson = Inr data
                       \<and> json_loads zip_world data = Inr (JObject kvs)" by (intro exI conjI)
  note a = geojson_matches_after_sniff[of zip_world a_geojson, THEN conjunct1, rule_format, OF h]
  have t1: "GeoJSONValidator_driver_validation zip_world a_geojson = Inr True"
    by (rule iffD2[OF conjunct2[OF a]], intro conjI) (rule refl, rule c, rule d)
  have t2: "GeoJSONValidator_driver_validation unreadable_world upload_path
              = Inl (LibraryError ''MagicException'')"
    by (rule geojson_matches_after_sniff[of unreadable_world upload_path, THEN conjunct2,
               rule_format, OF u])
  show ?thesis by (intro conjI) (rule h, rule t1, rule u, rule t2)
qed

text \<open>
  C7, as the claim has it, fails: on a file the sniffer cannot read the validator raises.
\<close>

theorem geojson_matches_raises_when_sniffer_raises:
  "GeoJSONValidator_driver_validation unreadable_world upload_path
     = Inl (LibraryError ''MagicException'')"
  by (simp add: GeoJSONValidator_driver_validation_def unreadable_world_def base_world_def)

section \<open>The constructor\<close>

text \<open>
  C8, the code at the failing input: a plain-text upload whose size is exactly the
  configured maximum is rejected with \<open>ValidationError\<close>.
\<close>

theorem size_equal_to_maximum_rejected:
  "getsize size_limit_world upload_path = MAX_VECTOR_FILE_SIZE size_limit_world
   \<and> from_file size_limit_world upload_path = Inr ''text/plain''
   \<and> ''text/plain'' \<in> set FILE_TYPES
   \<and> VectorFileUploader_init size_limit_world upload_path = Inl ValidationError"
  by (simp add: size_limit_world_def base_world_def FILE_TYPES_def VectorFileUploader_init_def)

text \<open>
  C9, as the code has it. An upload whose detected MIME type is in neither list is
  rejected: with \<open>ValidationError\<close> when its size reaches the maximum (the size is tested
  first), with \<open>TypeError\<close> otherwise.
\<close>

theorem unsupported_mime_rejected:
  assumes "from_file w file_path = Inr mime"
    and "mime \<notin> set FILE_TYPES"
    and "mime \<notin> set ARCHIVE_TYPES"
  shows "VectorFileUploader_init w file_path =
           Inl (if getsize w file_path \<ge> MAX_VECTOR_FILE_SIZE w then ValidationError else TypeError)"
  using assms by (simp add: VectorFileUploader_init_def)

theorem unsupported_mime_rejected_witness:
  "from_file png_world upload_path = Inr ''image/png''
   \<and> ''image/png'' \<notin> set FILE_TYPES
   \<and> ''image/png'' \<notin> set ARCHIVE_TYPES
   \<and> VectorFileUploader_init png_world upload_path = Inl TypeError"
proof -
  have 0: "from_file png_world upload_path = Inr ''image/png''"
    by (simp add: png_world_def base_world_def)
  have 1: "''image/png'' \<notin> set FILE_TYPES" by (simp add: FILE_TYPES_def)
  have 2: "''image/png'' \<notin> set ARCHIVE_TYPES" by (simp add: ARCHIVE_TYPES_def)
  have "\<not> getsize png_world upload_path \<ge> MAX_VECTOR_FILE_SIZE png_world"
    by (simp add: png_world_def base_world_def)
  then show ?thesis using 0 1 2 unsupported_mime_rejected[OF 0 1 2] by simp
qed

text \<open>
  C9, as the claim has it, fails: a small upload of type \<open>image/png\<close> is rejected with
  \<open>TypeError\<close>, not with \<open>ValidationError\<close>.
\<close>

theorem unsupported_mime_not_validation_error:
  "from_file png_world upload_path = Inr ''image/png''
   \<and> ''image/png'' \<notin> set FILE_TYPES
   \<and> ''image/png'' \<notin> set ARCHIVE_TYPES
   \<and> VectorFileUploader_init png_world upload_path \<noteq> Inl ValidationError"
  by (simp add: png_world_def base_world_def FILE_TYPES_def ARCHIVE_TYPES_def
        VectorFileUploader_init_def)

section \<open>Runs on the example worlds\<close>

text \<open>
  C1, the code at the failing input. The member \<open>sibling_entry\<close> resolves to a path
  outside the workspace; the check of \<open>safe_extract\<close> lets it pass, because the
  workspace's path is a prefix, character by character, of the sibling's; the run writes
  the file there and leaves it.
\<close>

theorem tar_sibling_entry_written_outside_workspace:
  "abspath (fs_cwd base_fs) (path_join workspace_path sibling_entry) = sibling_target
   \<and> \<not> inside workspace_path sibling_target
   \<and> safe_extract_check base_fs workspace_path [sibling_entry] = Inr ()
   \<and> run (tar_world [sibling_entry]) upload_path [] base_fs =
       (\<lparr>fs_files = [sibling_target], fs_dirs = [''/srv/app'', ''/tmp/aoi''],
         fs_cwd = ''/srv/app''\<rparr>,
        Inl IndexError)"
  by code_simp

text \<open>
  C2, the code at the failing input. The tar member \<open>../../etc/evil\<close> makes the
  extraction raise; \<open>TEMP_FOLDER\<close> has not been set by then, and the run ends with the
  workspace directory still there.
\<close>

theorem workspace_left_after_failed_extraction:
  "run (tar_world [''../../etc/evil'']) upload_path [] base_fs =
     (\<lparr>fs_files = [upload_path], fs_dirs = [''/srv/app'', ''/tmp/aoi'', workspace_path],
       fs_cwd = ''/srv/app''\<rparr>,
      Inl AttemptedPathTraversal)"
  by code_simp

text \<open>
  C3, the code at the failing input. With a relative \<open>AOI_TEMP_ROOT\<close> and no \<open>7z\<close>
  command, \<open>subprocess.call\<close> raises while the process stands in the workspace, and
  nothing moves it back. The handler of \<open>create_output_data_source\<close> then resolves the
  relative name of the output against the workspace, \<open>remove\<close> raises
  \<open>FileNotFoundError\<close>, and the run ends with that error instead of the one
  \<open>__write_geometry_by_type\<close> raised, the file of the output still on disk.
\<close>

theorem output_left_when_7z_call_raises:
  "VectorFileUploader_init missing_7z_world upload_path = Inr sevenz_uploader
   \<and> write_geometry_by_type missing_7z_world sevenz_uploader []
        (write_file (abspath (fs_cwd relative_root_fs) (output_name missing_7z_world))
           relative_root_fs) []
       = (\<lparr>fs_files = [upload_path, relative_output_path],
            fs_dirs = [''/srv/app'', ''/srv/app/aoi_tmp'', relative_workspace_path],
            fs_cwd = relative_workspace_path\<rparr>,
          None, Inl (LibraryError ''No such file or directory: 7z''))
   \<and> run missing_7z_world upload_path [] relative_root_fs
       = (\<lparr>fs_files = [upload_path, relative_output_path],
            fs_dirs = [''/srv/app'', ''/srv/app/aoi_tmp'', relative_workspace_path],
            fs_cwd = relative_workspace_path\<rparr>,
          Inl FileNotFoundError)"
  by code_simp

lemma zip_run:
  "run zip_world upload_path [] base_fs =
     (\<lparr>fs_files = [output_path], fs_dirs = [''/srv/app'', ''/tmp/aoi''], fs_cwd = ''/srv/app''\<rparr>,
      Inr (output_path,
          [(''layer_1'',
            [Some (Geometry ''POLYGON'' ''POLYGON ((0 0,0 1,1 1,0 0))''),
             Some (Geometry ''POLYGON'' ''POLYGON ((5 5,5 6,6 6,5 5))''),
             Some (Geometry ''POINT'' ''POINT (1 1)''),
             Some (Geometry ''POINT'' ''POINT (2 2)''),
             Some (Geometry ''POINT'' ''POINT (3 3)'')])]))"
  by code_simp

lemma zip_run_leftovers:
  "upload_path \<notin> set [output_path]
   \<and> workspace_path \<notin> set [''/srv/app'', ''/tmp/aoi'']
   \<and> absolute_file_paths workspace_path
         \<lparr>fs_files = [output_path], fs_dirs = [''/srv/app'', ''/tmp/aoi''], fs_cwd = ''/srv/app''\<rparr>
       = []"
  by code_simp

text \<open>
  C4, as the code has it. In the end-to-end example the output has one layer, \<open>layer_1\<close>,
  with the five features; the ZIP file and the workspace directory are gone after the run.
\<close>

theorem end_to_end_example:
  "snd (run zip_world upload_path [] base_fs) =
     Inr (output_path,
          [(''layer_1'',
            [Some (Geometry ''POLYGON'' ''POLYGON ((0 0,0 1,1 1,0 0))''),
             Some (Geometry ''POLYGON'' ''POLYGON ((5 5,5 6,6 6,5 5))''),
             Some (Geometry ''POINT'' ''POINT (1 1)''),
             Some (Geometry ''POINT'' ''POINT (2 2)''),
             Some (Geometry ''POINT'' ''POINT (3 3)'')])])
   \<and> layer_count (snd (run zip_world upload_path [] base_fs)) = Some 1
   \<and> feature_count (snd (run zip_world upload_path [] base_fs)) = Some 5
   \<and> upload_path \<notin> set (fs_files (fst (run zip_world upload_path [] base_fs)))
   \<and> workspace_path \<notin> set (fs_dirs (fst (run zip_world upload_path [] base_fs)))
   \<and> absolute_file_paths workspace_path (fst (run zip_world upload_path [] base_fs)) = []"
  using zip_run_leftovers
  by (simp only: zip_run fst_conv snd_conv filesystem.simps)
     (simp add: layer_count_def feature_count_def)

text \<open>C4, as the claim has it, fails: the output of the example does not have two layers.\<close>

theorem end_to_end_layer_count_not_two:
  "layer_count (snd (run zip_world upload_path [] base_fs)) \<noteq> Some 2"
  by (simp add: zip_run layer_count_def)

section \<open>Writing geometries\<close>









section \<open>The empty candidate list\<close>

text \<open>
  C10. When the candidate list is empty, \<open>__write_geometry_by_type\<close> raises
  \<open>IndexError\<close> (the first \<open>pop\<close>), and the run ends with an error: no output is returned.
\<close>

theorem empty_candidate_list_raises_index_error:
  assumes "materialize_candidates w u (write_file (abspath (fs_cwd fs) (output_name w)) fs)
             = (fs1, tmp, Inr [])"
  shows "write_geometry_by_type w u types (write_file (abspath (fs_cwd fs) (output_name w)) fs) []
           = (fs1, tmp, Inl IndexError)
         \<and> (\<exists>e. snd (create_output_data_source w u types fs) = Inl e)"
proof -
  have 1: "write_geometry_by_type w u types (write_file (abspath (fs_cwd fs) (output_name w)) fs) []
           = (fs1, tmp, Inl IndexError)"
    using assms by (simp add: write_geometry_by_type_def)
  then have "\<exists>e. snd (create_output_data_source w u types fs) = Inl e"
    by (simp add: create_output_data_source_def Let_def split: sum.splits)
  with 1 show ?thesis by simp
qed

theorem empty_candidate_list_raises_index_error_witness:
  "materialize_candidates failed_7z_world sevenz_uploader
       (write_file (abspath (fs_cwd base_fs) (output_name failed_7z_world)) base_fs)
     = (\<lparr>fs_files = [output_path], fs_dirs = [''/srv/app'', ''/tmp/aoi'', workspace_path],
          fs_cwd = ''/srv/app''\<rparr>,
        Some workspace_path, Inr [])
   \<and> write_geometry_by_type failed_7z_world sevenz_uploader []
        (write_file (abspath (fs_cwd base_fs) (output_name failed_7z_world)) base_fs) []
       = (\<lparr>fs_files = [output_path], fs_dirs = [''/srv/app'', ''/tmp/aoi'', workspace_path],
            fs_cwd = ''/srv/app''\<rparr>,
          Some workspace_path, Inl IndexError)
   \<and> (\<exists>e. snd (create_output_data_source failed_7z_world sevenz_uploader [] base_fs) = Inl e)"
proof -
  have h: "materialize_candidates failed_7z_world sevenz_uploader
       (write_file (abspath (fs_cwd base_fs) (output_name failed_7z_world)) base_fs)
     = (\<lparr>fs_files = [output_path], fs_dirs = [''/srv/app'', ''/tmp/aoi'', workspace_path],
          fs_cwd = ''/srv/app''\<rparr>,
        Some workspace_path, Inr [])" by code_simp
  from empty_candidate_list_raises_index_error[OF h, of "[]"] h show ?thesis by blast
qed

end
